theory Spec2Isabelle
  imports Complex_Main "HOL-Library.Log_Nat"
begin

section \<open>Address classification (\<open>CRYPTO_PATTERNS\<close>, \<open>detect_crypto_type\<close>)\<close>

text \<open>
  The seven patterns of \<open>bot.py\<close> use only literals, character classes, alternation,
  bounded repetition and the two anchors. They are kept as syntax trees that follow the
  pattern text, and matched the way \<open>re.match\<close> matches: from position 0, trying every
  alternative, with \<open>$\<close> succeeding at the end of the string and also just before a line
  feed that ends the string (no flags are passed, so this is the default meaning of \<open>$\<close>).
  Strings are byte lists; every class of the table is ASCII, so a byte above 127 is in none.
\<close>

datatype regex =
    Lit string
  | Cls "(char \<times> char) list"
  | Alt regex regex
  | Cat regex regex
  | Rep nat nat regex
  | Caret
  | Dollar

definition in_class :: "(char \<times> char) list \<Rightarrow> char \<Rightarrow> bool" where
  "in_class ranges c =
     list_ex (\<lambda>(lo, hi). (of_char lo :: nat) \<le> of_char c \<and> (of_char c :: nat) \<le> of_char hi) ranges"

primrec reps :: "(nat \<times> string \<Rightarrow> (nat \<times> string) list) \<Rightarrow> nat \<Rightarrow> nat \<times> string \<Rightarrow> (nat \<times> string) list" where
  "reps f 0 p = [p]"
| "reps f (Suc n) p = concat (map (reps f n) (f p))"

lemma reps_cong [fundef_cong]:
  "(\<And>q. f q = g q) \<Longrightarrow> n = m \<Longrightarrow> p = p' \<Longrightarrow> reps f n p = reps g m p'"
proof -
  assume "\<And>q. f q = g q"
  then have "f = g" by (simp add: fun_eq_iff)
  moreover assume "n = m" "p = p'"
  ultimately show ?thesis by simp
qed

text \<open>
  \<open>rems r (i, s)\<close>: every way \<open>r\<close> can match at position \<open>i\<close>, where \<open>s\<close> is the text
  from \<open>i\<close> on; each result is the position after the match and the text left.
\<close>

fun rems :: "regex \<Rightarrow> nat \<times> string \<Rightarrow> (nat \<times> string) list" where
  "rems (Lit w) (i, s) =
     (if take (length w) s = w then [(i + length w, drop (length w) s)] else [])"
| "rems (Cls ranges) (i, s) =
     (case s of [] \<Rightarrow> [] | c # cs \<Rightarrow> if in_class ranges c then [(Suc i, cs)] else [])"
| "rems (Alt a b) p = rems a p @ rems b p"
| "rems (Cat a b) p = concat (map (rems b) (rems a p))"
| "rems (Rep lo hi a) p = concat (map (\<lambda>n. reps (rems a) n p) [lo..<Suc hi])"
| "rems Caret (i, s) = (if i = 0 then [(i, s)] else [])"
| "rems Dollar (i, s) = (if s = [] \<or> s = [CHR 0x0A] then [(i, s)] else [])"

definition re_match :: "regex \<Rightarrow> string \<Rightarrow> bool" where
  "re_match pattern s = (rems pattern (0, s) \<noteq> [])"

definition CRYPTO_PATTERNS :: "(string \<times> regex) list" where
  "CRYPTO_PATTERNS =
    [(''bitcoin'',
        Cat Caret (Cat (Alt (Lit ''bc1'') (Cls [(CHR ''1'', CHR ''1''), (CHR ''3'', CHR ''3'')]))
          (Cat (Rep 25 39 (Cls [(CHR ''a'', CHR ''z''), (CHR ''A'', CHR ''H''), (CHR ''J'', CHR ''N''),
                                (CHR ''P'', CHR ''Z''), (CHR ''0'', CHR ''9'')])) Dollar))),
     (''ethereum'',
        Cat Caret (Cat (Lit ''0x'')
          (Cat (Rep 40 40 (Cls [(CHR ''a'', CHR ''f''), (CHR ''A'', CHR ''F''), (CHR ''0'', CHR ''9'')])) Dollar))),
     (''litecoin'',
        Cat Caret (Cat (Cls [(CHR ''L'', CHR ''L''), (CHR ''M'', CHR ''M''), (CHR ''3'', CHR ''3'')])
          (Cat (Rep 26 33 (Cls [(CHR ''a'', CHR ''k''), (CHR ''m'', CHR ''z''), (CHR ''A'', CHR ''H''),
                                (CHR ''J'', CHR ''N''), (CHR ''P'', CHR ''Z''), (CHR ''1'', CHR ''9'')])) Dollar))),
     (''tron'',
        Cat Caret (Cat (Lit ''T'')
          (Cat (Rep 33 33 (Cls [(CHR ''a'', CHR ''z''), (CHR ''A'', CHR ''Z''), (CHR ''0'', CHR ''9'')])) Dollar))),
     (''usdt_trc20'',
        Cat Caret (Cat (Lit ''T'')
          (Cat (Rep 33 33 (Cls [(CHR ''a'', CHR ''z''), (CHR ''A'', CHR ''Z''), (CHR ''0'', CHR ''9'')])) Dollar))),
     (''usdt_erc20'',
        Cat Caret (Cat (Lit ''0x'')
          (Cat (Rep 40 40 (Cls [(CHR ''a'', CHR ''f''), (CHR ''A'', CHR ''F''), (CHR ''0'', CHR ''9'')])) Dollar))),
     (''dogecoin'',
        Cat Caret (Cat (Rep 1 1 (Lit ''D''))
          (Cat (Rep 1 1 (Cls [(CHR ''5'', CHR ''9''), (CHR ''A'', CHR ''H''), (CHR ''J'', CHR ''N''),
                              (CHR ''P'', CHR ''U'')]))
          (Cat (Rep 32 32 (Cls [(CHR ''1'', CHR ''9''), (CHR ''A'', CHR ''H''), (CHR ''J'', CHR ''N''),
                                (CHR ''P'', CHR ''Z''), (CHR ''a'', CHR ''k''), (CHR ''m'', CHR ''z'')])) Dollar))))]"

text \<open>The loop of \<open>detect_crypto_type\<close> over the table, in the table's order.\<close>

fun first_match :: "(string \<times> regex) list \<Rightarrow> string \<Rightarrow> string option" where
  "first_match [] address = None"
| "first_match ((crypto_type, pattern) # rest) address =
     (if re_match pattern address then Some crypto_type else first_match rest address)"

definition detect_crypto_type :: "string \<Rightarrow> string option" where
  "detect_crypto_type address = first_match CRYPTO_PATTERNS address"

text \<open>
  What the specification asks of a matcher: the pattern matches from position 0 and the
  match takes the whole string (what \<open>re.fullmatch\<close> computes).
\<close>

definition accepts_full_string :: "regex \<Rightarrow> string \<Rightarrow> bool" where
  "accepts_full_string pattern s = list_ex (\<lambda>(i, rest). rest = []) (rems pattern (0, s))"

text \<open>A pattern whose last element is \<open>$\<close>.\<close>

fun ends_with_dollar :: "regex \<Rightarrow> bool" where
  "ends_with_dollar (Cat a b) = ends_with_dollar b"
| "ends_with_dollar Dollar = True"
| "ends_with_dollar _ = False"

section \<open>Python values used by the adapters\<close>

text \<open>
  Exceptions are values; every constructor stands for a subclass of \<open>Exception\<close>.
  \<open>RequestException\<close> is what \<open>requests.get\<close> raises when no response arrives,
  \<open>JSONDecodeError\<close> what \<open>response.json()\<close> raises on a body that is not JSON.
\<close>

datatype py_exn =
    TypeError | KeyError | IndexError | ValueError | AttributeError | OverflowError
  | JSONDecodeError | RequestException

text \<open>
  The result of \<open>response.json()\<close>. A float is kept as the rational number it denotes
  (infinities, NaN and the negative zero are outside the model); a dict is the list of
  its items, with distinct keys.
\<close>

datatype json =
    JNull
  | JBool bool
  | JInt int
  | JFloat rat
  | JStr string
  | JArr "json list"
  | JObj "(string \<times> json) list"

definition bindE :: "py_exn + 'a \<Rightarrow> ('a \<Rightarrow> py_exn + 'b) \<Rightarrow> py_exn + 'b" where
  "bindE m f = (case m of Inl e \<Rightarrow> Inl e | Inr x \<Rightarrow> f x)"

text \<open>\<open>d.get(key, default)\<close>: only a dict has the method.\<close>

definition py_get :: "json \<Rightarrow> string \<Rightarrow> json \<Rightarrow> py_exn + json" where
  "py_get d key dflt =
     (case d of
        JObj items \<Rightarrow> (case map_of items key of Some v \<Rightarrow> Inr v | None \<Rightarrow> Inr dflt)
      | _ \<Rightarrow> Inl AttributeError)"

text \<open>\<open>d[key]\<close> with a string key.\<close>

definition py_getitem :: "json \<Rightarrow> string \<Rightarrow> py_exn + json" where
  "py_getitem d key =
     (case d of
        JObj items \<Rightarrow> (case map_of items key of Some v \<Rightarrow> Inr v | None \<Rightarrow> Inl KeyError)
      | _ \<Rightarrow> Inl TypeError)"

text \<open>\<open>d[0]\<close>: the keys of a parsed JSON object are strings, so a dict has no key 0.\<close>

definition py_getitem0 :: "json \<Rightarrow> py_exn + json" where
  "py_getitem0 d =
     (case d of
        JArr xs \<Rightarrow> (case xs of [] \<Rightarrow> Inl IndexError | x # _ \<Rightarrow> Inr x)
      | JStr s \<Rightarrow> (case s of [] \<Rightarrow> Inl IndexError | c # _ \<Rightarrow> Inr (JStr [c]))
      | JObj items \<Rightarrow> Inl KeyError
      | _ \<Rightarrow> Inl TypeError)"

definition truthy :: "json \<Rightarrow> bool" where
  "truthy v =
     (case v of
        JNull \<Rightarrow> False
      | JBool b \<Rightarrow> b
      | JInt n \<Rightarrow> n \<noteq> 0
      | JFloat x \<Rightarrow> x \<noteq> 0
      | JStr s \<Rightarrow> s \<noteq> []
      | JArr xs \<Rightarrow> xs \<noteq> []
      | JObj items \<Rightarrow> items \<noteq> [])"

text \<open>\<open>len(v)\<close>.\<close>

definition py_len :: "json \<Rightarrow> py_exn + int" where
  "py_len v =
     (case v of
        JStr s \<Rightarrow> Inr (int (length s))
      | JArr xs \<Rightarrow> Inr (int (length xs))
      | JObj items \<Rightarrow> Inr (int (length items))
      | _ \<Rightarrow> Inl TypeError)"

text \<open>\<open>for x in v\<close>: the elements of a list, the keys of a dict, the characters of a string.\<close>

definition py_iter :: "json \<Rightarrow> py_exn + json list" where
  "py_iter v =
     (case v of
        JArr xs \<Rightarrow> Inr xs
      | JObj items \<Rightarrow> Inr (map (\<lambda>(k, _). JStr k) items)
      | JStr s \<Rightarrow> Inr (map (\<lambda>c. JStr [c]) s)
      | _ \<Rightarrow> Inl TypeError)"

subsection \<open>Decimal text of an integer, \<open>int(...)\<close>\<close>

fun str_nat :: "nat \<Rightarrow> string" where
  "str_nat n = (if n < 10 then [char_of (48 + n)] else str_nat (n div 10) @ [char_of (48 + n mod 10)])"

declare str_nat.simps [simp del]

definition str_int :: "int \<Rightarrow> string" where
  "str_int i = (if i < 0 then CHR ''-'' # str_nat (nat (- i)) else str_nat (nat i))"

definition is_space :: "char \<Rightarrow> bool" where
  "is_space c = (let n = (of_char c :: int) in (9 \<le> n \<and> n \<le> 13) \<or> (28 \<le> n \<and> n \<le> 32))"

definition is_digit :: "char \<Rightarrow> bool" where
  "is_digit c = (let n = (of_char c :: int) in 48 \<le> n \<and> n \<le> 57)"

definition strip :: "string \<Rightarrow> string" where
  "strip s = rev (dropWhile is_space (rev (dropWhile is_space s)))"

text \<open>Digits, with single underscores allowed between two digits.\<close>

fun digits_val :: "int \<Rightarrow> string \<Rightarrow> int option" where
  "digits_val acc [] = Some acc"
| "digits_val acc (c # cs) =
     (if is_digit c then digits_val (acc * 10 + (of_char c - 48)) cs
      else if c = CHR ''_'' \<and> cs \<noteq> [] \<and> is_digit (hd cs) then digits_val acc cs
      else None)"

definition unsigned_val :: "string \<Rightarrow> int option" where
  "unsigned_val u = (case u of [] \<Rightarrow> None | d # _ \<Rightarrow> if is_digit d then digits_val 0 u else None)"

text \<open>
  \<open>int(s)\<close> for a string, base 10: surrounding white space, an optional sign, digits.
  Digits outside ASCII and the interpreter's limit on the number of digits are not modelled.
\<close>

definition int_of_str :: "string \<Rightarrow> int option" where
  "int_of_str s =
     (case strip s of
        [] \<Rightarrow> None
      | c # cs \<Rightarrow>
          if c = CHR ''-'' then map_option uminus (unsigned_val cs)
          else if c = CHR ''+'' then unsigned_val cs
          else unsigned_val (c # cs))"

definition py_int :: "json \<Rightarrow> py_exn + int" where
  "py_int v =
     (case v of
        JInt n \<Rightarrow> Inr n
      | JBool b \<Rightarrow> Inr (if b then 1 else 0)
      | JFloat x \<Rightarrow> Inr (if 0 \<le> x then \<lfloor>x\<rfloor> else \<lceil>x\<rceil>)
      | JStr s \<Rightarrow> (case int_of_str s of Some n \<Rightarrow> Inr n | None \<Rightarrow> Inl ValueError)
      | _ \<Rightarrow> Inl TypeError)"

subsection \<open>True division\<close>

text \<open>
  \<open>/\<close> answers a float: the double nearest to the exact quotient, ties to the even
  significand. \<open>round_double\<close> is that rounding on rationals, \<open>None\<close> when the result
  is beyond the largest double.
\<close>

definition pow2 :: "int \<Rightarrow> rat" where
  "pow2 e = (if 0 \<le> e then 2 ^ nat e else 1 / 2 ^ nat (- e))"

definition round_half_even :: "rat \<Rightarrow> int" where
  "round_half_even q =
     (let f = \<lfloor>q\<rfloor>; d = q - of_int f
      in if d < 1 / 2 then f else if 1 / 2 < d then f + 1 else if even f then f else f + 1)"

text \<open>The exponent \<open>e\<close> with \<open>2 ^ e \<le> \<bar>q\<bar> < 2 ^ (e + 1)\<close>, for \<open>q \<noteq> 0\<close>.\<close>

definition binade :: "rat \<Rightarrow> int" where
  "binade q =
     (let (n, d) = quotient_of \<bar>q\<bar>;
          k = bitlen n - bitlen d
      in if pow2 k \<le> \<bar>q\<bar> then k else k - 1)"

definition round_double :: "rat \<Rightarrow> rat option" where
  "round_double q =
     (if q = 0 then Some 0
      else let e = max (binade q) (- 1022);
               ulp = pow2 (e - 52);
               r = of_int (round_half_even (q / ulp)) * ulp
           in if pow2 1024 \<le> \<bar>r\<bar> then None else Some r)"

text \<open>
  \<open>v / d\<close> for an \<open>int\<close> literal \<open>d > 0\<close> that is itself a double (\<open>100000000\<close>):
  \<open>int / int\<close> rounds the exact quotient once; a float operand divides as a double.
\<close>

definition truediv_int :: "json \<Rightarrow> int \<Rightarrow> py_exn + rat" where
  "truediv_int v d =
     (let quot = (\<lambda>n :: int. case round_double (of_int n / of_int d) of
                                 None \<Rightarrow> Inl OverflowError | Some r \<Rightarrow> Inr r)
      in case v of
           JInt n \<Rightarrow> quot n
         | JBool b \<Rightarrow> quot (if b then 1 else 0)
         | JFloat x \<Rightarrow> (case round_double (x / of_int d) of
                          None \<Rightarrow> Inl OverflowError | Some r \<Rightarrow> Inr r)
         | _ \<Rightarrow> Inl TypeError)"

text \<open>
  \<open>v / f\<close> for a float literal \<open>f \<ge> 1\<close> (\<open>1e18\<close>, \<open>1e6\<close>, both exact as doubles): an
  \<open>int\<close> operand is first converted to a double, which overflows beyond the largest one.
\<close>

definition truediv_float :: "json \<Rightarrow> rat \<Rightarrow> py_exn + rat" where
  "truediv_float v f =
     (let conv = (\<lambda>n :: int. case round_double (of_int n) of
                                 None \<Rightarrow> Inl OverflowError
                               | Some x \<Rightarrow> (case round_double (x / f) of
                                             None \<Rightarrow> Inl OverflowError | Some r \<Rightarrow> Inr r))
      in case v of
           JInt n \<Rightarrow> conv n
         | JBool b \<Rightarrow> conv (if b then 1 else 0)
         | JFloat x \<Rightarrow> (case round_double (x / f) of
                          None \<Rightarrow> Inl OverflowError | Some r \<Rightarrow> Inr r)
         | _ \<Rightarrow> Inl TypeError)"

section \<open>The world outside the process\<close>

text \<open>
  What \<open>bot.py\<close> reads from outside is a parameter of the model: the answer of the network to
  an HTTP GET, the translation catalogue behind \<open>i18n.t\<close> (key, locale, keyword
  arguments), the text Python gives a float or a container in an f-string, the process
  environment after \<open>load_dotenv\<close>, and what the chat client reports and delivers.
\<close>

record request =
  url :: string
  headers :: "(string \<times> string) list"

text \<open>\<open>json_body = None\<close>: the body is not JSON, \<open>response.json()\<close> raises.\<close>

record response =
  status_code :: int
  json_body :: "json option"

datatype msgtype = TEXT | OTHER

record event =
  ev_msgtype :: msgtype
  ev_body :: string
  ev_room_id :: string
  ev_sender :: string

record world =
  http_get :: "request \<Rightarrow> py_exn + response"
  i18n_t :: "string \<Rightarrow> string \<Rightarrow> (string \<times> string) list \<Rightarrow> string"
  float_repr :: "rat \<Rightarrow> string"
  container_repr :: "json \<Rightarrow> string"
  environ :: "string \<Rightarrow> string option"
  client_mxid :: string
  whoami :: "py_exn + string"
  inbox :: "event list"

definition NL :: string where
  "NL = [CHR 0x0A]"

text \<open>\<open>str(v)\<close>, as an f-string field renders a value.\<close>

definition py_str :: "world \<Rightarrow> json \<Rightarrow> string" where
  "py_str w v =
     (case v of
        JNull \<Rightarrow> ''None''
      | JBool b \<Rightarrow> (if b then ''True'' else ''False'')
      | JInt n \<Rightarrow> str_int n
      | JFloat x \<Rightarrow> float_repr w x
      | JStr s \<Rightarrow> s
      | _ \<Rightarrow> container_repr w v)"

definition response_json :: "response \<Rightarrow> py_exn + json" where
  "response_json r = (case json_body r of None \<Rightarrow> Inl JSONDecodeError | Some d \<Rightarrow> Inr d)"

text \<open>\<open>os.getenv(name, default)\<close> and the module-level \<open>API_KEYS\<close>.\<close>

definition getenv :: "world \<Rightarrow> string \<Rightarrow> string \<Rightarrow> string" where
  "getenv w name dflt = (case environ w name of None \<Rightarrow> dflt | Some v \<Rightarrow> v)"

record api_keys =
  etherscan :: string
  blockcypher :: string
  trongrid :: string

definition API_KEYS :: "world \<Rightarrow> api_keys" where
  "API_KEYS w =
     \<lparr>etherscan = getenv w ''ETHERSCAN_API_KEY'' [],
      blockcypher = getenv w ''BLOCKCYPHER_API_KEY'' [],
      trongrid = getenv w ''TRONGRID_API_KEY'' []\<rparr>"

section \<open>The balance adapters\<close>

text \<open>
  An adapter answers the requests it issued, in order, and either the text it returns or
  the exception it raises. No adapter has a \<open>try\<close>: an exception of \<open>requests.get\<close>,
  of \<open>response.json()\<close> or of the field accesses leaves the adapter.
\<close>

type_synonym adapter_result = "request list \<times> (py_exn + string)"

text \<open>
  \<open>check_bitcoin\<close>, \<open>check_litecoin\<close> and \<open>check_dogecoin\<close> are the same function up to
  the network segment of the URL, the coin's name and its unit.
\<close>

definition utxo_report :: "world \<Rightarrow> string \<Rightarrow> string \<Rightarrow> string \<Rightarrow> json \<Rightarrow> py_exn + string" where
  "utxo_report w coin unit address data =
     bindE (bindE (py_get data ''balance'' (JInt 0)) (\<lambda>v. truediv_int v 100000000)) (\<lambda>balance.
     bindE (bindE (py_get data ''total_received'' (JInt 0)) (\<lambda>v. truediv_int v 100000000)) (\<lambda>total_received.
     bindE (bindE (py_get data ''total_sent'' (JInt 0)) (\<lambda>v. truediv_int v 100000000)) (\<lambda>total_sent.
     bindE (py_get data ''n_tx'' (JInt 0)) (\<lambda>n_tx.
     Inr (coin @ '' Address: '' @ address @ NL
          @ ''Balance: '' @ float_repr w balance @ '' '' @ unit @ NL
          @ ''Total Received: '' @ float_repr w total_received @ '' '' @ unit @ NL
          @ ''Total Sent: '' @ float_repr w total_sent @ '' '' @ unit @ NL
          @ ''Transactions: '' @ py_str w n_tx)))))"

definition utxo_request :: "string \<Rightarrow> string \<Rightarrow> request" where
  "utxo_request segment address =
     \<lparr>url = ''https://api.blockcypher.com/v1/'' @ segment @ ''/main/addrs/'' @ address, headers = []\<rparr>"

definition utxo_check :: "world \<Rightarrow> string \<Rightarrow> string \<Rightarrow> string \<Rightarrow> string \<Rightarrow> adapter_result" where
  "utxo_check w segment coin unit address =
     (let req = utxo_request segment address
      in case http_get w req of
           Inl e \<Rightarrow> ([req], Inl e)
         | Inr response \<Rightarrow>
             if status_code response = 200
             then ([req], bindE (response_json response) (utxo_report w coin unit address))
             else ([req], Inr (''Error checking '' @ coin @ '' address: ''
                               @ str_int (status_code response))))"

definition check_bitcoin :: "world \<Rightarrow> string \<Rightarrow> adapter_result" where
  "check_bitcoin w address = utxo_check w ''btc'' ''Bitcoin'' ''BTC'' address"

definition check_litecoin :: "world \<Rightarrow> string \<Rightarrow> adapter_result" where
  "check_litecoin w address = utxo_check w ''ltc'' ''Litecoin'' ''LTC'' address"

definition check_dogecoin :: "world \<Rightarrow> string \<Rightarrow> adapter_result" where
  "check_dogecoin w address = utxo_check w ''doge'' ''Dogecoin'' ''DOGE'' address"

text \<open>
  \<open>len(tx_data.get('result', [])) if tx_data['status'] == '1' else 0\<close>: the condition
  is evaluated first.
\<close>

definition tx_count_of :: "json \<Rightarrow> py_exn + int" where
  "tx_count_of tx_data =
     bindE (py_getitem tx_data ''status'') (\<lambda>status.
       if status = JStr ''1''
       then bindE (py_get tx_data ''result'' (JArr [])) py_len
       else Inr 0)"

definition balance_request :: "world \<Rightarrow> string \<Rightarrow> request" where
  "balance_request w address =
     \<lparr>url = ''https://api.etherscan.io/api?module=account&action=balance&address=''
            @ address @ ''&tag=latest&apikey='' @ etherscan (API_KEYS w),
      headers = []\<rparr>"

definition txlist_request :: "world \<Rightarrow> string \<Rightarrow> request" where
  "txlist_request w address =
     \<lparr>url = ''https://api.etherscan.io/api?module=account&action=txlist&address=''
            @ address @ ''&startblock=0&endblock=99999999&sort=desc&apikey=''
            @ etherscan (API_KEYS w),
      headers = []\<rparr>"

definition check_ethereum :: "world \<Rightarrow> string \<Rightarrow> adapter_result" where
  "check_ethereum w address =
     (if etherscan (API_KEYS w) = [] then ([], Inr ''Etherscan API key is not set'')
      else
        let req = balance_request w address
        in case http_get w req of
             Inl e \<Rightarrow> ([req], Inl e)
           | Inr response \<Rightarrow>
               if status_code response = 200 then
                 (case response_json response of
                    Inl e \<Rightarrow> ([req], Inl e)
                  | Inr data \<Rightarrow>
                      (case py_getitem data ''status'' of
                         Inl e \<Rightarrow> ([req], Inl e)
                       | Inr status \<Rightarrow>
                           if status = JStr ''1'' then
                             (case bindE (bindE (py_getitem data ''result'') py_int)
                                     (\<lambda>n. truediv_float (JInt n) (10 ^ 18)) of
                                Inl e \<Rightarrow> ([req], Inl e)
                              | Inr balance \<Rightarrow>
                                  let tx_req = txlist_request w address
                                  in (case http_get w tx_req of
                                        Inl e \<Rightarrow> ([req, tx_req], Inl e)
                                      | Inr tx_response \<Rightarrow>
                                          ([req, tx_req],
                                           bindE (response_json tx_response) (\<lambda>tx_data.
                                           bindE (tx_count_of tx_data) (\<lambda>tx_count.
                                           Inr (''Ethereum Address: '' @ address @ NL
                                                @ ''Balance: '' @ float_repr w balance @ '' ETH'' @ NL
                                                @ ''Transactions: '' @ str_int tx_count))))))
                           else
                             ([req], bindE (py_getitem data ''message'') (\<lambda>m.
                                     Inr (''Error checking Ethereum address: '' @ py_str w m)))))
               else ([req], Inr (''Error checking Ethereum address: ''
                                 @ str_int (status_code response))))"

definition tron_headers :: "world \<Rightarrow> (string \<times> string) list" where
  "tron_headers w =
     (if trongrid (API_KEYS w) \<noteq> [] then [(''TRON-PRO-API-KEY'', trongrid (API_KEYS w))] else [])"

text \<open>\<open>data.get('success', False) and data.get('data', [])\<close>, as a condition.\<close>

definition has_data :: "json \<Rightarrow> py_exn + bool" where
  "has_data data =
     bindE (py_get data ''success'' (JBool False)) (\<lambda>success.
       if truthy success then bindE (py_get data ''data'' (JArr [])) (\<lambda>d. Inr (truthy d))
       else Inr False)"

definition tron_request :: "world \<Rightarrow> string \<Rightarrow> request" where
  "tron_request w address =
     \<lparr>url = ''https://api.trongrid.io/v1/accounts/'' @ address, headers = tron_headers w\<rparr>"

definition check_tron :: "world \<Rightarrow> string \<Rightarrow> adapter_result" where
  "check_tron w address =
     (let req = tron_request w address
      in case http_get w req of
           Inl e \<Rightarrow> ([req], Inl e)
         | Inr response \<Rightarrow>
             if status_code response = 200 then
               ([req],
                bindE (response_json response) (\<lambda>data.
                bindE (has_data data) (\<lambda>ok.
                  if ok then
                    bindE (py_getitem data ''data'') (\<lambda>accounts.
                    bindE (py_getitem0 accounts) (\<lambda>account_data.
                    bindE (bindE (py_get account_data ''balance'' (JInt 0))
                             (\<lambda>v. truediv_float v (10 ^ 6))) (\<lambda>balance.
                    Inr (''TRON Address: '' @ address @ NL
                         @ ''Balance: '' @ float_repr w balance @ '' TRX''))))
                  else Inr (''No data found for TRON address: '' @ address))))
             else ([req], Inr (''Error checking TRON address: '' @ str_int (status_code response))))"

definition usdt_trc20_contract :: string where
  "usdt_trc20_contract = ''TR7NHqjeKQxGTCi8q8ZY4pL8otSzgjLj6t''"

text \<open>\<open>int(token.get('balance', 0)) / 1e6\<close>, the new value of \<open>usdt_balance\<close>.\<close>

definition token_balance :: "json \<Rightarrow> py_exn + json" where
  "token_balance token =
     bindE (bindE (bindE (py_get token ''balance'' (JInt 0)) py_int)
              (\<lambda>n. truediv_float (JInt n) (10 ^ 6))) (\<lambda>b. Inr (JFloat b))"

text \<open>
  The \<open>for token in token_data\<close> loop with its \<open>break\<close>: the value of \<open>usdt_balance\<close>
  when the loop is left, the \<open>int\<close> 0 it starts with or the float of the first entry
  whose \<open>tokenId\<close> is the contract.
\<close>

fun scan_tokens :: "json list \<Rightarrow> py_exn + json" where
  "scan_tokens [] = Inr (JInt 0)"
| "scan_tokens (token # rest) =
     (case py_get token ''tokenId'' JNull of
        Inl e \<Rightarrow> Inl e
      | Inr token_id \<Rightarrow>
          if token_id = JStr usdt_trc20_contract then token_balance token
          else scan_tokens rest)"

text \<open>An entry the loop stops at: a dict whose \<open>tokenId\<close> is the contract.\<close>

definition is_usdt_entry :: "json \<Rightarrow> bool" where
  "is_usdt_entry token = (py_get token ''tokenId'' JNull = Inr (JStr usdt_trc20_contract))"

definition tron_usdt_request :: "world \<Rightarrow> string \<Rightarrow> request" where
  "tron_usdt_request w address =
     \<lparr>url = ''https://api.trongrid.io/v1/accounts/'' @ address
            @ ''/tokens?contract_address='' @ usdt_trc20_contract,
      headers = tron_headers w\<rparr>"

definition check_tron_usdt :: "world \<Rightarrow> string \<Rightarrow> adapter_result" where
  "check_tron_usdt w address =
     (let req = tron_usdt_request w address
      in case http_get w req of
           Inl e \<Rightarrow> ([req], Inl e)
         | Inr response \<Rightarrow>
             if status_code response = 200 then
               ([req],
                bindE (response_json response) (\<lambda>data.
                bindE (has_data data) (\<lambda>ok.
                  if ok then
                    bindE (py_getitem data ''data'') (\<lambda>token_data.
                    bindE (py_iter token_data) (\<lambda>tokens.
                    bindE (scan_tokens tokens) (\<lambda>usdt_balance.
                    Inr (''USDT (TRC20) Address: '' @ address @ NL
                         @ ''Balance: '' @ py_str w usdt_balance @ '' USDT''))))
                  else Inr (''No USDT (TRC20) tokens found for address: '' @ address))))
             else ([req], Inr (''Error checking USDT (TRC20) address: ''
                               @ str_int (status_code response))))"

definition usdt_erc20_contract :: string where
  "usdt_erc20_contract = ''0xdac17f958d2ee523a2206206994597c13d831ec7''"

definition tokenbalance_request :: "world \<Rightarrow> string \<Rightarrow> request" where
  "tokenbalance_request w address =
     \<lparr>url = ''https://api.etherscan.io/api?module=account&action=tokenbalance&contractaddress=''
            @ usdt_erc20_contract @ ''&address='' @ address
            @ ''&tag=latest&apikey='' @ etherscan (API_KEYS w),
      headers = []\<rparr>"

definition check_ethereum_usdt :: "world \<Rightarrow> string \<Rightarrow> adapter_result" where
  "check_ethereum_usdt w address =
     (if etherscan (API_KEYS w) = [] then ([], Inr ''Etherscan API key is not set'')
      else
        let req = tokenbalance_request w address
        in case http_get w req of
             Inl e \<Rightarrow> ([req], Inl e)
           | Inr response \<Rightarrow>
               if status_code response = 200 then
                 ([req],
                  bindE (response_json response) (\<lambda>data.
                  bindE (py_getitem data ''status'') (\<lambda>status.
                    if status = JStr ''1'' then
                      bindE (bindE (bindE (py_getitem data ''result'') py_int)
                               (\<lambda>n. truediv_float (JInt n) (10 ^ 6))) (\<lambda>balance.
                      Inr (''USDT (ERC20) Address: '' @ address @ NL
                           @ ''Balance: '' @ float_repr w balance @ '' USDT''))
                    else
                      bindE (py_getitem data ''message'') (\<lambda>m.
                      Inr (''Error checking USDT (ERC20) address: '' @ py_str w m)))))
               else ([req], Inr (''Error checking USDT (ERC20) address: ''
                                 @ str_int (status_code response))))"

section \<open>The bot: preferences, dispatch, message handling\<close>

text \<open>
  Everything the process changes is one record: the dict \<open>self.user_languages\<close>, the
  texts handed to \<open>client.send_text\<close> (room, text), the log, the HTTP requests issued and
  the number of \<open>whoami\<close> calls. The chat transport is taken as reliable: \<open>send_text\<close>
  records the text and returns.
\<close>

datatype log_entry =
    Info string
  | Error string
  | Error_exn string py_exn

record state =
  user_languages :: "string \<Rightarrow> string option"
  sent :: "(string \<times> string) list"
  log :: "log_entry list"
  requests :: "request list"
  whoami_calls :: nat

definition initial_state :: state where
  "initial_state =
     \<lparr>user_languages = Map.empty, sent = [], log = [], requests = [], whoami_calls = 0\<rparr>"

definition send_text :: "string \<Rightarrow> string \<Rightarrow> state \<Rightarrow> state \<times> (py_exn + unit)" where
  "send_text room_id text st = (st\<lparr>sent := sent st @ [(room_id, text)]\<rparr>, Inr ())"

definition logger :: "log_entry \<Rightarrow> state \<Rightarrow> state" where
  "logger entry st = st\<lparr>log := log st @ [entry]\<rparr>"

subsection \<open>\<open>set_language\<close>, \<open>get_user_language\<close>\<close>

definition set_language :: "world \<Rightarrow> string \<Rightarrow> string \<Rightarrow> string \<Rightarrow> state \<Rightarrow> state \<times> (py_exn + unit)" where
  "set_language w room_id user_id lang st =
     send_text room_id (i18n_t w ''messages.language_changed'' lang [])
       (st\<lparr>user_languages := (user_languages st)(user_id \<mapsto> lang)\<rparr>)"

definition get_user_language :: "state \<Rightarrow> string \<Rightarrow> string" where
  "get_user_language st user_id =
     (case user_languages st user_id of None \<Rightarrow> ''ru'' | Some lang \<Rightarrow> lang)"

subsection \<open>\<open>check_address\<close>\<close>

definition crypto_apis :: "world \<Rightarrow> (string \<times> (string \<Rightarrow> adapter_result)) list" where
  "crypto_apis w =
     [(''bitcoin'', check_bitcoin w),
      (''ethereum'', check_ethereum w),
      (''litecoin'', check_litecoin w),
      (''tron'', check_tron w),
      (''usdt_trc20'', check_tron_usdt w),
      (''usdt_erc20'', check_ethereum_usdt w),
      (''dogecoin'', check_dogecoin w)]"

text \<open>The body of the \<open>try\<close>.\<close>

definition call_adapter :: "world \<Rightarrow> string \<Rightarrow> string \<Rightarrow> string \<Rightarrow> string \<Rightarrow> state \<Rightarrow> state \<times> (py_exn + unit)" where
  "call_adapter w room_id address crypto_type user_lang st =
     (case map_of (crypto_apis w) crypto_type of
        Some adapter \<Rightarrow>
          (case adapter address of
             (reqs, Inl e) \<Rightarrow> (st\<lparr>requests := requests st @ reqs\<rparr>, Inl e)
           | (reqs, Inr result) \<Rightarrow> send_text room_id result (st\<lparr>requests := requests st @ reqs\<rparr>))
      | None \<Rightarrow> send_text room_id (i18n_t w ''messages.unsupported_crypto'' user_lang []) st)"

text \<open>The text of the notice sent before the lookup.\<close>

definition checking_notice :: "world \<Rightarrow> string \<Rightarrow> string \<Rightarrow> string \<Rightarrow> string" where
  "checking_notice w address crypto_type user_lang =
     i18n_t w ''messages.checking'' user_lang
       [(''address'', address), (''crypto'', i18n_t w (''crypto.'' @ crypto_type) user_lang [])]"

definition check_address :: "world \<Rightarrow> string \<Rightarrow> string \<Rightarrow> string \<Rightarrow> string \<Rightarrow> state \<Rightarrow> state \<times> (py_exn + unit)" where
  "check_address w room_id address crypto_type sender st =
     (let user_lang = get_user_language st sender
      in case send_text room_id (checking_notice w address crypto_type user_lang) st of
           (st1, Inl e) \<Rightarrow> (st1, Inl e)
         | (st1, Inr _) \<Rightarrow>
             (case call_adapter w room_id address crypto_type user_lang st1 of
                (st2, Inl e) \<Rightarrow>
                  send_text room_id (i18n_t w ''messages.error'' user_lang [])
                    (logger (Error_exn (''Error checking address '' @ address @ '': '') e) st2)
              | (st2, Inr u) \<Rightarrow> (st2, Inr u)))"

text \<open>
  The state \<open>check_address\<close> leaves when the adapter returned a text: the checking notice
  and that text were sent, the adapter's requests were issued, the log is as it was.
\<close>

definition replied :: "world \<Rightarrow> string \<Rightarrow> string \<Rightarrow> string \<Rightarrow> string \<Rightarrow> request list \<Rightarrow> string \<Rightarrow> state \<Rightarrow> state" where
  "replied w room_id address crypto_type sender reqs text st =
     st\<lparr>sent := sent st @ [(room_id, checking_notice w address crypto_type (get_user_language st sender)),
                            (room_id, text)],
        requests := requests st @ reqs\<rparr>"

subsection \<open>\<open>handle_message\<close> and the event loop\<close>

definition py_lower :: "string \<Rightarrow> string" where
  "py_lower s =
     map (\<lambda>c. let n = (of_char c :: nat) in if 65 \<le> n \<and> n \<le> 90 then char_of (n + 32) else c) s"

definition handle_message :: "world \<Rightarrow> event \<Rightarrow> state \<Rightarrow> state \<times> (py_exn + unit)" where
  "handle_message w ev st =
     (if ev_msgtype ev \<noteq> TEXT then (st, Inr ())
      else
        let message = ev_body ev; room_id = ev_room_id ev; sender = ev_sender ev
        in if sender = client_mxid w then (st, Inr ())
           else if py_lower message \<in> set [''/ru'', ''/en'']
           then set_language w room_id sender (filter (\<lambda>c. c \<noteq> CHR ''/'') (py_lower message)) st
           else (case detect_crypto_type message of
                   Some crypto_type \<Rightarrow>
                     if crypto_type \<noteq> [] then check_address w room_id message crypto_type sender st
                     else send_text room_id
                            (i18n_t w ''messages.invalid_address'' (get_user_language st sender) []) st
                 | None \<Rightarrow>
                     send_text room_id
                       (i18n_t w ''messages.invalid_address'' (get_user_language st sender) []) st))"

text \<open>
  \<open>sync_forever\<close> hands the events to the handler one after the other; the model lets an
  exception that leaves the handler end the loop.
\<close>

fun run_events :: "world \<Rightarrow> event list \<Rightarrow> state \<Rightarrow> state \<times> (py_exn + unit)" where
  "run_events w [] st = (st, Inr ())"
| "run_events w (ev # evs) st =
     (case handle_message w ev st of
        (st1, Inl e) \<Rightarrow> (st1, Inl e)
      | (st1, Inr _) \<Rightarrow> run_events w evs st1)"

subsection \<open>\<open>__init__\<close>, \<open>login\<close>, \<open>start\<close>, \<open>main\<close>\<close>

text \<open>
  A call of the class with positional arguments: \<open>__init__(self, homeserver, access_token)\<close>
  takes two besides \<open>self\<close>, any other number is a \<open>TypeError\<close> at the call.
\<close>

definition CryptoCheckerBot :: "string list \<Rightarrow> state \<Rightarrow> state \<times> (py_exn + unit)" where
  "CryptoCheckerBot args st =
     (case args of
        [homeserver, access_token] \<Rightarrow> (st\<lparr>user_languages := Map.empty\<rparr>, Inr ())
      | _ \<Rightarrow> (st, Inl TypeError))"

definition login :: "world \<Rightarrow> state \<Rightarrow> state \<times> (py_exn + unit)" where
  "login w st =
     (let st1 = st\<lparr>whoami_calls := Suc (whoami_calls st)\<rparr>
      in case whoami w of
           Inl e \<Rightarrow> (logger (Error_exn ''Failed to log in: '' e) st1, Inl e)
         | Inr user \<Rightarrow> (logger (Info (''Logged in as '' @ user)) st1, Inr ()))"

definition start :: "world \<Rightarrow> state \<Rightarrow> state \<times> (py_exn + unit)" where
  "start w st =
     (case login w st of
        (st1, Inl e) \<Rightarrow> (st1, Inl e)
      | (st1, Inr _) \<Rightarrow> run_events w (inbox w) st1)"

text \<open>\<open>not v\<close> for the result of \<open>os.getenv\<close>, and its text in an f-string.\<close>

definition unset :: "string option \<Rightarrow> bool" where
  "unset v = (case v of None \<Rightarrow> True | Some s \<Rightarrow> s = [])"

definition str_opt :: "string option \<Rightarrow> string" where
  "str_opt v = (case v of None \<Rightarrow> ''None'' | Some s \<Rightarrow> s)"

definition main :: "world \<Rightarrow> state \<times> (py_exn + unit)" where
  "main w =
     (let homeserver = environ w ''MATRIX_HOMESERVER'';
          user_id = environ w ''MATRIX_USER_ID'';
          access_token = environ w ''MATRIX_ACCESS_TOKEN'';
          st = logger (Info (''Access Token: ''
                             @ (if unset access_token then ''Not set'' else replicate 10 (CHR ''*''))))
                 (logger (Info (''User ID: '' @ str_opt user_id))
                    (logger (Info (''Homeserver: '' @ str_opt homeserver)) initial_state))
      in if unset user_id \<or> unset access_token \<or> unset homeserver
         then (logger (Error ''Matrix homeserver, user_id or access_token not set'') st, Inr ())
         else if take 1 (str_opt user_id) \<noteq> ''@''
         then (logger (Error (''User ID must start with @, got: '' @ str_opt user_id)) st, Inr ())
         else (case CryptoCheckerBot [str_opt homeserver, str_opt user_id, str_opt access_token] st of
                 (st1, Inl e) \<Rightarrow> (st1, Inl e)
               | (st1, Inr _) \<Rightarrow> start w st1))"

subsection \<open>A world for closed instances\<close>

text \<open>
  The instances below run the bot in a world given by a network and an environment:
  \<open>i18n.t\<close> answers the key it is asked for with the locale appended, the floats
  \<open>3/2\<close> and 0 are rendered as Python renders them (any other as \<open>float\<close>, a
  container as \<open>container\<close>), and no event is waiting.
\<close>

definition sample_world :: "(request \<Rightarrow> py_exn + response) \<Rightarrow> (string \<Rightarrow> string option) \<Rightarrow> world" where
  "sample_world net env =
     \<lparr>http_get = net,
      i18n_t = (\<lambda>key locale kwargs. key @ '':'' @ locale),
      float_repr = (\<lambda>x. if x = 3 / 2 then ''1.5'' else if x = 0 then ''0.0'' else ''float''),
      container_repr = (\<lambda>v. ''container''),
      environ = env,
      client_mxid = ''@bot:example.org'',
      whoami = Inr ''@bot:example.org'',
      inbox = []\<rparr>"

definition matrix_env :: "string \<Rightarrow> string option" where
  "matrix_env =
     [''MATRIX_HOMESERVER'' \<mapsto> ''https://example.org'',
      ''MATRIX_USER_ID'' \<mapsto> ''@bot:example.org'',
      ''MATRIX_ACCESS_TOKEN'' \<mapsto> ''secret'']"

definition not_found :: "request \<Rightarrow> py_exn + response" where
  "not_found req = Inr \<lparr>status_code = 404, json_body = None\<rparr>"

text \<open>A provider that answers 200 with a body that is not JSON.\<close>

definition garbled :: "request \<Rightarrow> py_exn + response" where
  "garbled req = Inr \<lparr>status_code = 200, json_body = None\<rparr>"

definition genesis_address :: string where
  "genesis_address = ''1A1zP1eP5QGefi2DMPTfTL5SLmv7DivfNa''"

text \<open>
  An environment with an Etherscan key, and two networks that answer the balance request
  with 1.5 ETH in wei: one whose transaction-list endpoint is down (502, no JSON body),
  one whose transaction-list endpoint answers with an error status in its payload.
\<close>

definition etherscan_env :: "string \<Rightarrow> string option" where
  "etherscan_env = matrix_env(''ETHERSCAN_API_KEY'' \<mapsto> ''KEY'')"

definition eth_address :: string where
  "eth_address = ''0xde0b295669a9fd93d5f28d9ec85e40f4cb697bae''"

definition one_and_a_half_eth :: json where
  "one_and_a_half_eth =
     JObj [(''status'', JStr ''1''), (''message'', JStr ''OK''),
           (''result'', JStr ''1500000000000000000'')]"

definition is_balance_request :: "request \<Rightarrow> bool" where
  "is_balance_request req =
     (take 58 (url req) = ''https://api.etherscan.io/api?module=account&action=balance'')"

definition txlist_down :: "request \<Rightarrow> py_exn + response" where
  "txlist_down req =
     (if is_balance_request req then Inr \<lparr>status_code = 200, json_body = Some one_and_a_half_eth\<rparr>
      else Inr \<lparr>status_code = 502, json_body = None\<rparr>)"

definition rate_limited :: json where
  "rate_limited =
     JObj [(''status'', JStr ''0''), (''message'', JStr ''NOTOK''),
           (''result'', JStr ''Max rate limit reached'')]"

definition txlist_notok :: "request \<Rightarrow> py_exn + response" where
  "txlist_notok req =
     (if is_balance_request req then Inr \<lparr>status_code = 200, json_body = Some one_and_a_half_eth\<rparr>
      else Inr \<lparr>status_code = 200, json_body = Some rate_limited\<rparr>)"

text \<open>
  Answers of the TRON token endpoint: an empty token list, a list without the USDT
  contract, and a list where the USDT contract comes second with 1.5 USDT.
\<close>

definition tron_address :: string where
  "tron_address = ''TJRabPrwbZy45sbavfcjinPJC18kjpRTv8''"

definition no_tokens :: "request \<Rightarrow> py_exn + response" where
  "no_tokens req =
     Inr \<lparr>status_code = 200,
          json_body = Some (JObj [(''success'', JBool True), (''data'', JArr [])])\<rparr>"

definition other_token :: json where
  "other_token = JObj [(''tokenId'', JStr ''TLa2f6VPqDgRE67v1736s7bJ8Ray5wYjU7''), (''balance'', JStr ''7'')]"

definition usdt_token :: json where
  "usdt_token = JObj [(''tokenId'', JStr ''TR7NHqjeKQxGTCi8q8ZY4pL8otSzgjLj6t''), (''balance'', JStr ''1500000'')]"

definition tokens_without_usdt :: "request \<Rightarrow> py_exn + response" where
  "tokens_without_usdt req =
     Inr \<lparr>status_code = 200,
          json_body = Some (JObj [(''success'', JBool True), (''data'', JArr [other_token])])\<rparr>"

definition tokens_usdt_second :: "request \<Rightarrow> py_exn + response" where
  "tokens_usdt_second req =
     Inr \<lparr>status_code = 200,
          json_body = Some (JObj [(''success'', JBool True),
                                  (''data'', JArr [other_token, usdt_token])])\<rparr>"

text \<open>A provider that answers every request with 1.5 BTC received and held, in satoshi.\<close>

definition one_and_a_half_btc :: json where
  "one_and_a_half_btc =
     JObj [(''balance'', JInt 150000000), (''total_received'', JInt 150000000),
           (''total_sent'', JInt 0), (''n_tx'', JInt 1)]"

definition one_and_a_half_net :: "request \<Rightarrow> py_exn + response" where
  "one_and_a_half_net req = Inr \<lparr>status_code = 200, json_body = Some one_and_a_half_btc\<rparr>"

section \<open>Auxiliary facts\<close>

lemma bindE_Inl [simp]: "bindE (Inl e) f = Inl e"
  by (simp add: bindE_def)

lemma bindE_Inr [simp]: "bindE (Inr x) f = f x"
  by (simp add: bindE_def)

lemma send_text_result [simp]:
  "send_text room_id text st = (st\<lparr>sent := sent st @ [(room_id, text)]\<rparr>, Inr ())"
  by (simp add: send_text_def)

lemma str_int_404: "str_int 404 = ''404''"
  by code_simp

lemma str_int_1: "str_int 1 = ''1''"
  by code_simp

lemma satoshi_150000000: "truediv_int (JInt 150000000) 100000000 = Inr (3 / 2)"
  by code_simp

lemma satoshi_0: "truediv_int (JInt 0) 100000000 = Inr 0"
  by (simp add: truediv_int_def round_double_def)

subsection \<open>What each adapter returns on a failure it detects\<close>

lemma utxo_check_not_200:
  assumes "http_get w (utxo_request segment address) = Inr r" and "status_code r \<noteq> 200"
  shows "utxo_check w segment coin unit address =
           ([utxo_request segment address],
            Inr (''Error checking '' @ coin @ '' address: '' @ str_int (status_code r)))"
  using assms by (simp add: utxo_check_def Let_def)

lemma check_ethereum_no_key:
  "etherscan (API_KEYS w) = [] \<Longrightarrow> check_ethereum w address = ([], Inr ''Etherscan API key is not set'')"
  by (simp add: check_ethereum_def)

lemma check_ethereum_not_200:
  assumes "etherscan (API_KEYS w) \<noteq> []"
    and "http_get w (balance_request w address) = Inr r" and "status_code r \<noteq> 200"
  shows "check_ethereum w address =
           ([balance_request w address],
            Inr (''Error checking Ethereum address: '' @ str_int (status_code r)))"
  using assms by (simp add: check_ethereum_def Let_def)

lemma check_ethereum_payload_error:
  assumes "etherscan (API_KEYS w) \<noteq> []"
    and "http_get w (balance_request w address) = Inr r" and "status_code r = 200"
    and "json_body r = Some data" and "py_getitem data ''status'' = Inr status"
    and "status \<noteq> JStr ''1''" and "py_getitem data ''message'' = Inr message"
  shows "check_ethereum w address =
           ([balance_request w address],
            Inr (''Error checking Ethereum address: '' @ py_str w message))"
  using assms by (simp add: check_ethereum_def response_json_def Let_def)

lemma check_tron_no_data:
  assumes "http_get w (tron_request w address) = Inr r" and "status_code r = 200"
    and "json_body r = Some data" and "has_data data = Inr False"
  shows "check_tron w address =
           ([tron_request w address], Inr (''No data found for TRON address: '' @ address))"
  using assms by (simp add: check_tron_def response_json_def Let_def)

text \<open>
  The second request of \<open>check_ethereum\<close>: no response, or a body that is not JSON, is an
  exception that leaves the adapter.
\<close>

lemma check_ethereum_txlist_no_json:
  assumes "etherscan (API_KEYS w) \<noteq> []"
    and "http_get w (balance_request w address) = Inr response"
    and "status_code response = 200" and "json_body response = Some data"
    and "py_getitem data ''status'' = Inr (JStr ''1'')"
    and "py_getitem data ''result'' = Inr result" and "py_int result = Inr wei"
    and "truediv_float (JInt wei) (10 ^ 18) = Inr balance"
    and "http_get w (txlist_request w address) = Inr tx_response"
    and "json_body tx_response = None"
  shows "check_ethereum w address
         = ([balance_request w address, txlist_request w address], Inl JSONDecodeError)"
  using assms by (simp add: check_ethereum_def response_json_def Let_def)

lemma check_ethereum_txlist_no_response:
  assumes "etherscan (API_KEYS w) \<noteq> []"
    and "http_get w (balance_request w address) = Inr response"
    and "status_code response = 200" and "json_body response = Some data"
    and "py_getitem data ''status'' = Inr (JStr ''1'')"
    and "py_getitem data ''result'' = Inr result" and "py_int result = Inr wei"
    and "truediv_float (JInt wei) (10 ^ 18) = Inr balance"
    and "http_get w (txlist_request w address) = Inl e"
  shows "check_ethereum w address
         = ([balance_request w address, txlist_request w address], Inl e)"
  using assms by (simp add: check_ethereum_def response_json_def Let_def)

subsection \<open>What \<open>check_address\<close> does with the adapter's outcome\<close>

lemma check_address_outcome:
  assumes "map_of (crypto_apis w) crypto_type = Some adapter"
  shows "check_address w room_id address crypto_type sender st =
           (case adapter address of
              (reqs, Inl e) \<Rightarrow>
                (st\<lparr>sent := sent st @ [(room_id, checking_notice w address crypto_type (get_user_language st sender)),
                                       (room_id, i18n_t w ''messages.error'' (get_user_language st sender) [])],
                    log := log st @ [Error_exn (''Error checking address '' @ address @ '': '') e],
                    requests := requests st @ reqs\<rparr>,
                 Inr ())
            | (reqs, Inr text) \<Rightarrow>
                (st\<lparr>sent := sent st @ [(room_id, checking_notice w address crypto_type (get_user_language st sender)),
                                       (room_id, text)],
                    requests := requests st @ reqs\<rparr>,
                 Inr ()))"
  using assms
  by (simp add: check_address_def call_adapter_def logger_def Let_def split: prod.split sum.split)

lemma check_address_returns: "snd (check_address w room_id address crypto_type sender st) = Inr ()"
  by (simp add: check_address_def call_adapter_def logger_def Let_def
      split: option.split sum.split prod.split)

lemma handle_message_returns: "snd (handle_message w ev st) = Inr ()"
  by (simp add: handle_message_def set_language_def check_address_returns Let_def
      split: option.split)

subsection \<open>Evaluations used by the closed instances\<close>

lemma str_int_0: "str_int 0 = ''0''"
  by code_simp

lemma wei_text: "py_int (JStr ''1500000000000000000'') = Inr 1500000000000000000"
  by code_simp

lemma wei_1500000000000000000: "truediv_float (JInt 1500000000000000000) (10 ^ 18) = Inr (3 / 2)"
  by code_simp

lemma sample_key: "etherscan (API_KEYS (sample_world net etherscan_env)) = ''KEY''"
  by (simp add: API_KEYS_def getenv_def sample_world_def etherscan_env_def)

lemma sample_balance_request:
  "is_balance_request (balance_request (sample_world net etherscan_env) eth_address)"
  by (simp add: is_balance_request_def balance_request_def)

lemma sample_txlist_request:
  "\<not> is_balance_request (txlist_request (sample_world net etherscan_env) eth_address)"
  by (simp add: is_balance_request_def txlist_request_def)

subsection \<open>The token scan\<close>

lemma scan_tokens_find:
  assumes "\<forall>token\<in>set tokens. \<exists>items. token = JObj items"
  shows "scan_tokens tokens =
           (case find is_usdt_entry tokens of
              None \<Rightarrow> Inr (JInt 0)
            | Some token \<Rightarrow> token_balance token)"
  using assms
proof (induction tokens)
  case Nil
  then show ?case by simp
next
  case (Cons token tokens)
  then obtain items where "token = JObj items" by auto
  with Cons show ?case
    by (auto simp: is_usdt_entry_def token_balance_def py_get_def split: option.split)
qed

section \<open>Properties of the classifier\<close>

text \<open>The loop answers the first rule of the table, in its order, whose pattern matches.\<close>

lemma first_match_find:
  "first_match table address
   = map_option fst (find (\<lambda>(crypto_type, pattern). re_match pattern address) table)"
  by (induction table) auto

lemma detect_crypto_type_first_rule:
  "detect_crypto_type address
   = map_option fst (find (\<lambda>(crypto_type, pattern). re_match pattern address) CRYPTO_PATTERNS)"
  by (simp add: detect_crypto_type_def first_match_find)

text \<open>
  The patterns of \<open>usdt_trc20\<close> and \<open>usdt_erc20\<close> are those of \<open>tron\<close> and \<open>ethereum\<close>,
  which come first: the two token types are never answered.
\<close>

lemma detect_crypto_type_never_token:
  "detect_crypto_type address \<noteq> Some ''usdt_trc20''
   \<and> detect_crypto_type address \<noteq> Some ''usdt_erc20''"
  by (simp add: detect_crypto_type_def CRYPTO_PATTERNS_def)

text \<open>What a match leaves is a suffix of the text it started on.\<close>

lemma reps_suffix:
  assumes "\<And>i s j r. (j, r) \<in> set (f (i, s)) \<Longrightarrow> \<exists>pre. s = pre @ r"
  shows "(j, r) \<in> set (reps f n (i, s)) \<Longrightarrow> \<exists>pre. s = pre @ r"
proof (induction n arbitrary: i s)
  case 0
  then show ?case by simp
next
  case (Suc n)
  then obtain k m where step: "(k, m) \<in> set (f (i, s))" and rest: "(j, r) \<in> set (reps f n (k, m))"
    by auto
  from assms [OF step] obtain pre where "s = pre @ m" by blast
  moreover from Suc.IH [OF rest] obtain pre' where "m = pre' @ r" by blast
  ultimately have "s = (pre @ pre') @ r" by simp
  then show ?case by blast
qed

lemma rems_suffix: "(j, r) \<in> set (rems p (i, s)) \<Longrightarrow> \<exists>pre. s = pre @ r"
proof (induction p arbitrary: i s j r)
  case (Lit w)
  then have "r = drop (length w) s" by (simp split: if_splits)
  then have "s = take (length w) s @ r" by simp
  then show ?case by blast
next
  case (Cls ranges)
  then show ?case by (cases s) (auto split: if_splits)
next
  case (Alt a b)
  then show ?case by auto
next
  case (Cat a b)
  then obtain k m where first: "(k, m) \<in> set (rems a (i, s))" and second: "(j, r) \<in> set (rems b (k, m))"
    by auto
  from Cat.IH(1) [OF first] obtain pre where "s = pre @ m" by blast
  moreover from Cat.IH(2) [OF second] obtain pre' where "m = pre' @ r" by blast
  ultimately have "s = (pre @ pre') @ r" by simp
  then show ?case by blast
next
  case (Rep lo hi a)
  then obtain n where "(j, r) \<in> set (reps (rems a) n (i, s))" by auto
  then show ?case
    using reps_suffix [of "rems a" j r n i s] Rep.IH by blast
next
  case Caret
  then show ?case by (simp split: if_splits)
next
  case Dollar
  then show ?case by (simp split: if_splits)
qed

lemma rems_ends_with_dollar:
  "ends_with_dollar p \<Longrightarrow> (j, r) \<in> set (rems p q) \<Longrightarrow> r = [] \<or> r = [CHR 0x0A]"
proof (induction p arbitrary: q)
  case (Cat a b)
  then show ?case by auto
next
  case Dollar
  then show ?case by (cases q) (simp split: if_splits)
qed simp_all

lemma table_ends_with_dollar:
  "(crypto_type, pattern) \<in> set CRYPTO_PATTERNS \<Longrightarrow> ends_with_dollar pattern"
  by (auto simp: CRYPTO_PATTERNS_def)

text \<open>
  On a string that does not end in a line feed, a pattern that ends in \<open>$\<close> matches
  exactly when it matches the full string; so on such strings the classifier answers the
  first rule whose matcher accepts the full string.
\<close>

lemma re_match_full_string:
  assumes "ends_with_dollar p" and "s = [] \<or> last s \<noteq> CHR 0x0A"
  shows "re_match p s = accepts_full_string p s"
proof -
  have nothing_left: "r = []" if "(j, r) \<in> set (rems p (0, s))" for j r
  proof (rule ccontr)
    assume "r \<noteq> []"
    with rems_ends_with_dollar [OF assms(1) that] have r: "r = [CHR 0x0A]" by simp
    from rems_suffix [OF that] obtain pre where "s = pre @ r" by blast
    with r have "s \<noteq> []" and "last s = CHR 0x0A" by simp_all
    with assms(2) show False by simp
  qed
  show ?thesis
  proof (cases "rems p (0, s)")
    case Nil
    then show ?thesis
      by (simp add: re_match_def accepts_full_string_def)
  next
    case (Cons x xs)
    obtain j r where x: "x = (j, r)" by (cases x)
    with Cons have "(j, r) \<in> set (rems p (0, s))" by simp
    from nothing_left [OF this] x Cons show ?thesis
      by (simp add: re_match_def accepts_full_string_def)
  qed
qed

lemma detect_crypto_type_full_string:
  assumes "address = [] \<or> last address \<noteq> CHR 0x0A"
  shows "detect_crypto_type address
         = map_option fst
             (find (\<lambda>(crypto_type, pattern). accepts_full_string pattern address) CRYPTO_PATTERNS)"
proof -
  have "find (\<lambda>(crypto_type, pattern). re_match pattern address) CRYPTO_PATTERNS
        = find (\<lambda>(crypto_type, pattern). accepts_full_string pattern address) CRYPTO_PATTERNS"
    using re_match_full_string [OF table_ends_with_dollar assms]
    by (intro find_cong) auto
  then show ?thesis
    by (simp add: detect_crypto_type_first_rule)
qed

text \<open>
  C2. The classifier answers the first rule of the table whose matcher accepts the input;
  the claim reads "accepts" as a match of the full string. On the 43 characters
  \<open>0x\<close>, forty times \<open>a\<close> and a final line feed, no rule of the table matches the full
  string, and \<open>detect_crypto_type\<close> still answers \<open>ethereum\<close>: the \<open>$\<close> of the pattern
  succeeds before the final line feed.
\<close>

theorem detect_crypto_type_final_line_feed:
  "detect_crypto_type (''0x'' @ replicate 40 (CHR ''a'') @ [CHR 0x0A]) = Some ''ethereum''
   \<and> \<not> list_ex (\<lambda>(crypto_type, pattern).
                   accepts_full_string pattern (''0x'' @ replicate 40 (CHR ''a'') @ [CHR 0x0A]))
          CRYPTO_PATTERNS"
  by code_simp

section \<open>Start-up\<close>

text \<open>
  C1. In every environment where \<open>MATRIX_HOMESERVER\<close>, \<open>MATRIX_USER_ID\<close> and
  \<open>MATRIX_ACCESS_TOKEN\<close> are set and not empty and the user id starts with \<open>@\<close>, \<open>main\<close>
  raises \<open>TypeError\<close> at the call of the class with three arguments: the three values were
  logged, and nothing else happened (no \<open>whoami\<close>, no message sent, no request).
\<close>

theorem main_raises_TypeError:
  assumes "environ w ''MATRIX_HOMESERVER'' = Some homeserver" and "homeserver \<noteq> []"
    and "environ w ''MATRIX_USER_ID'' = Some user_id" and "take 1 user_id = ''@''"
    and "environ w ''MATRIX_ACCESS_TOKEN'' = Some access_token" and "access_token \<noteq> []"
  shows "main w =
           (\<lparr>user_languages = Map.empty, sent = [],
             log = [Info (''Homeserver: '' @ homeserver), Info (''User ID: '' @ user_id),
                    Info ''Access Token: **********''],
             requests = [], whoami_calls = 0\<rparr>,
            Inl TypeError)"
proof -
  from assms(4) have "user_id \<noteq> []" by auto
  with assms show ?thesis
    by (simp add: main_def unset_def str_opt_def CryptoCheckerBot_def logger_def initial_state_def
        replicate_def Let_def)
qed

theorem main_raises_TypeError_witness:
  "main (sample_world not_found matrix_env) =
     (\<lparr>user_languages = Map.empty, sent = [],
       log = [Info ''Homeserver: https://example.org'', Info ''User ID: @bot:example.org'',
              Info ''Access Token: **********''],
       requests = [], whoami_calls = 0\<rparr>,
      Inl TypeError)"
  using main_raises_TypeError [of "sample_world not_found matrix_env" "''https://example.org''"
      "''@bot:example.org''" "''secret''"]
  by (simp add: sample_world_def matrix_env_def)

text \<open>
  In the other environments \<open>main\<close> logs the missing or malformed setting and returns:
  whatever the environment, no \<open>whoami\<close> call is made and no message is sent.
\<close>

lemma main_never_starts:
  "whoami_calls (fst (main w)) = 0 \<and> sent (fst (main w)) = [] \<and> requests (fst (main w)) = []"
  by (simp add: main_def CryptoCheckerBot_def logger_def initial_state_def Let_def)

section \<open>Properties of the adapters\<close>

text \<open>
  C7. When \<open>ETHERSCAN_API_KEY\<close> is unset or empty, \<open>check_ethereum\<close> and
  \<open>check_ethereum_usdt\<close> return the text \<open>Etherscan API key is not set\<close> (the code's form
  of a missing credential) for every address, and the list of requests they issued is empty.
\<close>

theorem etherscan_key_absent_no_request:
  assumes "environ w ''ETHERSCAN_API_KEY'' = None \<or> environ w ''ETHERSCAN_API_KEY'' = Some []"
  shows "check_ethereum w address = ([], Inr ''Etherscan API key is not set'')
         \<and> check_ethereum_usdt w address = ([], Inr ''Etherscan API key is not set'')"
proof -
  from assms have "etherscan (API_KEYS w) = []"
    by (auto simp: API_KEYS_def getenv_def)
  then show ?thesis
    by (simp add: check_ethereum_def check_ethereum_usdt_def)
qed

theorem etherscan_key_absent_no_request_witness:
  "matrix_env ''ETHERSCAN_API_KEY'' = None
   \<and> check_ethereum (sample_world not_found matrix_env) ''0xabc''
       = ([], Inr ''Etherscan API key is not set'')
   \<and> check_ethereum_usdt (sample_world not_found matrix_env) ''0xabc''
       = ([], Inr ''Etherscan API key is not set'')"
proof -
  have unset_key: "matrix_env ''ETHERSCAN_API_KEY'' = None"
    by (simp add: matrix_env_def)
  then have "environ (sample_world not_found matrix_env) ''ETHERSCAN_API_KEY'' = None
             \<or> environ (sample_world not_found matrix_env) ''ETHERSCAN_API_KEY'' = Some []"
    by (simp add: sample_world_def)
  from etherscan_key_absent_no_request [OF this, of "''0xabc''"] unset_key
  show ?thesis by simp
qed

text \<open>
  C8. When the provider answers the adapter's request with status 404, each of
  \<open>check_bitcoin\<close>, \<open>check_litecoin\<close> and \<open>check_dogecoin\<close> returns, for every address and
  whatever the body, its error text ending in \<open>404\<close> (the code's form of an unavailable
  provider carrying the status); it returns, it does not raise.
\<close>

theorem utxo_adapters_404:
  "(http_get w (utxo_request ''btc'' address) = Inr r \<and> status_code r = 404
    \<longrightarrow> check_bitcoin w address =
          ([utxo_request ''btc'' address], Inr ''Error checking Bitcoin address: 404''))
   \<and> (http_get w (utxo_request ''ltc'' address) = Inr r \<and> status_code r = 404
    \<longrightarrow> check_litecoin w address =
          ([utxo_request ''ltc'' address], Inr ''Error checking Litecoin address: 404''))
   \<and> (http_get w (utxo_request ''doge'' address) = Inr r \<and> status_code r = 404
    \<longrightarrow> check_dogecoin w address =
          ([utxo_request ''doge'' address], Inr ''Error checking Dogecoin address: 404''))"
  using utxo_check_not_200 [of w "''btc''" address r "''Bitcoin''" "''BTC''"]
    utxo_check_not_200 [of w "''ltc''" address r "''Litecoin''" "''LTC''"]
    utxo_check_not_200 [of w "''doge''" address r "''Dogecoin''" "''DOGE''"]
  by (simp add: check_bitcoin_def check_litecoin_def check_dogecoin_def str_int_404)

theorem utxo_adapters_404_witness:
  "check_bitcoin (sample_world not_found matrix_env) ''1abc'' =
     ([\<lparr>url = ''https://api.blockcypher.com/v1/btc/main/addrs/1abc'', headers = []\<rparr>],
      Inr ''Error checking Bitcoin address: 404'')
   \<and> check_litecoin (sample_world not_found matrix_env) ''1abc'' =
     ([\<lparr>url = ''https://api.blockcypher.com/v1/ltc/main/addrs/1abc'', headers = []\<rparr>],
      Inr ''Error checking Litecoin address: 404'')
   \<and> check_dogecoin (sample_world not_found matrix_env) ''1abc'' =
     ([\<lparr>url = ''https://api.blockcypher.com/v1/doge/main/addrs/1abc'', headers = []\<rparr>],
      Inr ''Error checking Dogecoin address: 404'')"
  using utxo_adapters_404 [of "sample_world not_found matrix_env" "''1abc''"
      "\<lparr>status_code = 404, json_body = None\<rparr>"]
  by (simp add: sample_world_def not_found_def utxo_request_def)

text \<open>
  C9. When the provider answers status 200 with the body
  \<open>{"balance": 150000000, "total_received": 150000000, "total_sent": 0, "n_tx": 1}\<close>,
  \<open>check_bitcoin\<close> returns, for every address, the report whose balance and total received
  are the float \<open>3/2\<close> (1.5 BTC), whose total sent is the float 0 and whose transaction
  count is 1: each satoshi value divided by \<open>100000000\<close>, and the quotient \<open>3/2\<close> is a
  double, so nothing is rounded.
\<close>

theorem check_bitcoin_one_and_a_half:
  assumes "http_get w (utxo_request ''btc'' address)
             = Inr \<lparr>status_code = 200, json_body = Some one_and_a_half_btc\<rparr>"
  shows "check_bitcoin w address =
           ([utxo_request ''btc'' address],
            Inr (''Bitcoin Address: '' @ address @ NL
                 @ ''Balance: '' @ float_repr w (3 / 2) @ '' BTC'' @ NL
                 @ ''Total Received: '' @ float_repr w (3 / 2) @ '' BTC'' @ NL
                 @ ''Total Sent: '' @ float_repr w 0 @ '' BTC'' @ NL
                 @ ''Transactions: 1''))
         \<and> truediv_int (JInt 150000000) 100000000 = Inr (150000000 / 10 ^ 8)"
proof -
  have report: "utxo_report w ''Bitcoin'' ''BTC'' address one_and_a_half_btc =
      Inr (''Bitcoin Address: '' @ address @ NL
           @ ''Balance: '' @ float_repr w (3 / 2) @ '' BTC'' @ NL
           @ ''Total Received: '' @ float_repr w (3 / 2) @ '' BTC'' @ NL
           @ ''Total Sent: '' @ float_repr w 0 @ '' BTC'' @ NL
           @ ''Transactions: 1'')"
    by (simp add: utxo_report_def one_and_a_half_btc_def py_get_def satoshi_150000000 satoshi_0
        py_str_def str_int_1)
  have "check_bitcoin w address =
          ([utxo_request ''btc'' address],
           utxo_report w ''Bitcoin'' ''BTC'' address one_and_a_half_btc)"
    using assms by (simp add: check_bitcoin_def utxo_check_def response_json_def Let_def)
  with report show ?thesis
    by (simp add: satoshi_150000000)
qed

theorem check_bitcoin_one_and_a_half_witness:
  "check_bitcoin (sample_world one_and_a_half_net matrix_env) ''1abc'' =
     ([\<lparr>url = ''https://api.blockcypher.com/v1/btc/main/addrs/1abc'', headers = []\<rparr>],
      Inr (''Bitcoin Address: 1abc'' @ NL @ ''Balance: 1.5 BTC'' @ NL
           @ ''Total Received: 1.5 BTC'' @ NL @ ''Total Sent: 0.0 BTC'' @ NL
           @ ''Transactions: 1''))"
  using check_bitcoin_one_and_a_half [of "sample_world one_and_a_half_net matrix_env" "''1abc''"]
  by (simp add: sample_world_def one_and_a_half_net_def utxo_request_def)

section \<open>Properties of the preference store\<close>

lemma check_address_user_languages:
  "user_languages (fst (check_address w room_id address crypto_type sender st)) = user_languages st"
  by (simp add: check_address_def call_adapter_def logger_def Let_def
      split: option.split sum.split prod.split)

lemma handle_message_user_languages:
  assumes "ev_sender ev = u \<longrightarrow> py_lower (ev_body ev) \<notin> set [''/ru'', ''/en'']"
  shows "user_languages (fst (handle_message w ev st)) u = user_languages st u"
  using assms
  by (auto simp: handle_message_def set_language_def check_address_user_languages Let_def
      split: option.split)

lemma run_events_user_languages:
  assumes "\<forall>ev\<in>set evs. ev_sender ev = u \<longrightarrow> py_lower (ev_body ev) \<notin> set [''/ru'', ''/en'']"
  shows "user_languages (fst (run_events w evs st)) u = user_languages st u"
  using assms
proof (induction evs arbitrary: st)
  case Nil
  then show ?case by simp
next
  case (Cons ev evs)
  obtain st1 r where step: "handle_message w ev st = (st1, r)"
    by (cases "handle_message w ev st")
  from Cons.prems have "ev_sender ev = u \<longrightarrow> py_lower (ev_body ev) \<notin> set [''/ru'', ''/en'']"
    by simp
  from handle_message_user_languages [OF this, of w st] step
  have kept: "user_languages st1 u = user_languages st u" by simp
  from Cons.prems have rest: "\<forall>ev\<in>set evs. ev_sender ev = u \<longrightarrow> py_lower (ev_body ev) \<notin> set [''/ru'', ''/en'']"
    by simp
  show ?case
  proof (cases r)
    case (Inl e)
    with step kept show ?thesis by simp
  next
    case (Inr x)
    with step kept Cons.IH [OF rest, of st1] show ?thesis by simp
  qed
qed

text \<open>
  A language command of a sender other than the bot stores the language under the sender.
\<close>

lemma handle_message_language_command:
  assumes "ev_msgtype ev = TEXT" and "ev_sender ev \<noteq> client_mxid w"
    and "py_lower (ev_body ev) = ''/en'' \<or> py_lower (ev_body ev) = ''/ru''"
  shows "get_user_language (fst (handle_message w ev st)) (ev_sender ev)
         = filter (\<lambda>c. c \<noteq> CHR ''/'') (py_lower (ev_body ev))"
  using assms by (auto simp: handle_message_def set_language_def get_user_language_def Let_def)

text \<open>
  C10. For every user \<open>u\<close> and every language \<open>l\<close> (in particular \<open>ru\<close> and \<open>en\<close>),
  \<open>get_user_language\<close> after \<open>set_language\<close> answers \<open>l\<close>; a second \<open>set_language\<close> for the
  same user overrides the first; and for a user who has sent no language command, after
  any events handled from the state \<open>__init__\<close> builds, the answer is \<open>ru\<close>.
\<close>

theorem language_round_trip:
  "get_user_language (fst (set_language w room_id u l st)) u = l
   \<and> get_user_language
       (fst (set_language w room_id' u l' (fst (set_language w room_id u l st)))) u = l'
   \<and> ((\<forall>ev\<in>set evs. ev_sender ev = u \<longrightarrow> py_lower (ev_body ev) \<notin> set [''/ru'', ''/en''])
        \<longrightarrow> get_user_language (fst (run_events w evs initial_state)) u = ''ru'')"
proof -
  have "get_user_language (fst (run_events w evs initial_state)) u = ''ru''"
    if "\<forall>ev\<in>set evs. ev_sender ev = u \<longrightarrow> py_lower (ev_body ev) \<notin> set [''/ru'', ''/en'']"
    using run_events_user_languages [OF that, of w initial_state]
    by (simp add: get_user_language_def initial_state_def)
  then show ?thesis
    by (simp add: set_language_def get_user_language_def)
qed

theorem language_round_trip_witness:
  "get_user_language (fst (set_language (sample_world not_found matrix_env) ''!room'' ''@alice:example.org''
       ''en'' initial_state)) ''@alice:example.org'' = ''en''
   \<and> get_user_language
       (fst (set_language (sample_world not_found matrix_env) ''!room'' ''@alice:example.org'' ''ru''
          (fst (set_language (sample_world not_found matrix_env) ''!room'' ''@alice:example.org''
             ''en'' initial_state)))) ''@alice:example.org'' = ''ru''
   \<and> get_user_language
       (fst (run_events (sample_world not_found matrix_env)
          [\<lparr>ev_msgtype = TEXT, ev_body = ''/en'', ev_room_id = ''!room'', ev_sender = ''@bob:example.org''\<rparr>]
          initial_state)) ''@alice:example.org'' = ''ru''"
  using language_round_trip [of "sample_world not_found matrix_env" "''!room''" "''@alice:example.org''"
      "''en''" initial_state "''!room''" "''ru''"
      "[\<lparr>ev_msgtype = TEXT, ev_body = ''/en'', ev_room_id = ''!room'', ev_sender = ''@bob:example.org''\<rparr>]"]
  by simp

section \<open>Properties of the dispatch engine\<close>

text \<open>
  C5. When the adapter chosen for the coin type raises an exception, \<open>check_address\<close>
  catches it: the cause is logged, the generic localized error notice is sent after the
  checking notice, and \<open>check_address\<close> returns. Handling an event never ends the loop:
  the loop goes on with the remaining events from the state the handler left.
\<close>

theorem adapter_exception_caught:
  assumes "map_of (crypto_apis w) crypto_type = Some adapter"
    and "adapter address = (reqs, Inl e)"
  shows "check_address w room_id address crypto_type sender st =
           (st\<lparr>sent := sent st @ [(room_id, checking_notice w address crypto_type (get_user_language st sender)),
                                  (room_id, i18n_t w ''messages.error'' (get_user_language st sender) [])],
               log := log st @ [Error_exn (''Error checking address '' @ address @ '': '') e],
               requests := requests st @ reqs\<rparr>,
            Inr ())
         \<and> run_events w (ev # evs) st' = run_events w evs (fst (handle_message w ev st'))"
proof -
  have "run_events w (ev # evs) st' = run_events w evs (fst (handle_message w ev st'))"
    using handle_message_returns [of w ev st']
    by (cases "handle_message w ev st'") simp
  with check_address_outcome [OF assms(1), of room_id address sender st] assms(2)
  show ?thesis by simp
qed

theorem adapter_exception_caught_witness:
  "check_address (sample_world garbled matrix_env) ''!room'' genesis_address ''bitcoin''
       ''@alice:example.org'' initial_state =
     (initial_state
        \<lparr>sent := [(''!room'', ''messages.checking:ru''), (''!room'', ''messages.error:ru'')],
         log := [Error_exn (''Error checking address '' @ genesis_address @ '': '') JSONDecodeError],
         requests := [utxo_request ''btc'' genesis_address]\<rparr>,
      Inr ())"
proof -
  have adapter: "map_of (crypto_apis (sample_world garbled matrix_env)) ''bitcoin''
                 = Some (check_bitcoin (sample_world garbled matrix_env))"
    by (simp add: crypto_apis_def)
  have raised: "check_bitcoin (sample_world garbled matrix_env) genesis_address
                = ([utxo_request ''btc'' genesis_address], Inl JSONDecodeError)"
    by (simp add: check_bitcoin_def utxo_check_def sample_world_def garbled_def response_json_def)
  from adapter_exception_caught [OF adapter raised, of "''!room''" "''@alice:example.org''" initial_state]
  show ?thesis
    by (simp add: sample_world_def checking_notice_def get_user_language_def initial_state_def)
qed

text \<open>
  C3 as stated: a lookup that ends in a failure is answered with the generic localized
  error notice only. It is not: for a provider that answers 404, the reply that follows
  the checking notice is the adapter's own text with the status code in it, and nothing
  is logged.
\<close>

theorem failure_reply_carries_status_code:
  "sent (fst (check_address (sample_world not_found matrix_env) ''!room'' genesis_address
                ''bitcoin'' ''@alice:example.org'' initial_state))
     = [(''!room'', ''messages.checking:ru''), (''!room'', ''Error checking Bitcoin address: 404'')]
   \<and> log (fst (check_address (sample_world not_found matrix_env) ''!room'' genesis_address
                ''bitcoin'' ''@alice:example.org'' initial_state)) = []
   \<and> ''Error checking Bitcoin address: 404''
       \<noteq> i18n_t (sample_world not_found matrix_env) ''messages.error''
            (get_user_language initial_state ''@alice:example.org'') []"
proof -
  have adapter: "map_of (crypto_apis (sample_world not_found matrix_env)) ''bitcoin''
                 = Some (check_bitcoin (sample_world not_found matrix_env))"
    by (simp add: crypto_apis_def)
  have returned: "check_bitcoin (sample_world not_found matrix_env) genesis_address
                  = ([utxo_request ''btc'' genesis_address], Inr ''Error checking Bitcoin address: 404'')"
    by (simp add: check_bitcoin_def utxo_check_def sample_world_def not_found_def str_int_404)
  show ?thesis
    by (simp add: check_address_outcome [OF adapter] returned)
      (simp add: sample_world_def checking_notice_def get_user_language_def initial_state_def)
qed

text \<open>
  C3, amended. Whatever text the adapter returns is sent unchanged after the checking
  notice, and nothing is logged. Every failure an adapter detects is such a text: a
  response other than 200 gives \<open>Error checking ... address:\<close> followed by the status code,
  a provider status other than \<open>'1'\<close> gives the same prefix followed by the provider's
  message, a missing key gives \<open>Etherscan API key is not set\<close>, missing data gives
  \<open>No data found ...\<close>. (The generic notice is what an exception raised by the adapter
  leads to.)
\<close>

theorem adapter_text_sent_unchanged:
  "(map_of (crypto_apis w) crypto_type = Some adapter \<and> adapter address = (reqs, Inr text)
      \<longrightarrow> check_address w room_id address crypto_type sender st
           = (replied w room_id address crypto_type sender reqs text st, Inr ()))
   \<and> (http_get w (utxo_request ''btc'' address) = Inr r \<and> status_code r \<noteq> 200
      \<longrightarrow> check_address w room_id address ''bitcoin'' sender st
           = (replied w room_id address ''bitcoin'' sender [utxo_request ''btc'' address]
                (''Error checking Bitcoin address: '' @ str_int (status_code r)) st, Inr ()))
   \<and> (etherscan (API_KEYS w) \<noteq> [] \<and> http_get w (balance_request w address) = Inr r
       \<and> status_code r \<noteq> 200
      \<longrightarrow> check_address w room_id address ''ethereum'' sender st
           = (replied w room_id address ''ethereum'' sender [balance_request w address]
                (''Error checking Ethereum address: '' @ str_int (status_code r)) st, Inr ()))
   \<and> (etherscan (API_KEYS w) \<noteq> [] \<and> http_get w (balance_request w address) = Inr r
       \<and> status_code r = 200 \<and> json_body r = Some data
       \<and> py_getitem data ''status'' = Inr status \<and> status \<noteq> JStr ''1''
       \<and> py_getitem data ''message'' = Inr message
      \<longrightarrow> check_address w room_id address ''ethereum'' sender st
           = (replied w room_id address ''ethereum'' sender [balance_request w address]
                (''Error checking Ethereum address: '' @ py_str w message) st, Inr ()))
   \<and> (etherscan (API_KEYS w) = []
      \<longrightarrow> check_address w room_id address ''ethereum'' sender st
           = (replied w room_id address ''ethereum'' sender [] ''Etherscan API key is not set'' st,
              Inr ()))
   \<and> (http_get w (tron_request w address) = Inr r \<and> status_code r = 200
       \<and> json_body r = Some data \<and> has_data data = Inr False
      \<longrightarrow> check_address w room_id address ''tron'' sender st
           = (replied w room_id address ''tron'' sender [tron_request w address]
                (''No data found for TRON address: '' @ address) st, Inr ()))"
proof -
  have general: "check_address w room_id address ct sender st
                 = (replied w room_id address ct sender rs t st, Inr ())"
    if "map_of (crypto_apis w) ct = Some a" and "a address = (rs, Inr t)" for ct a rs t
    using check_address_outcome [OF that(1), of room_id address sender st] that(2)
    by (simp add: replied_def)
  have bitcoin: "map_of (crypto_apis w) ''bitcoin'' = Some (check_bitcoin w)"
    and ethereum: "map_of (crypto_apis w) ''ethereum'' = Some (check_ethereum w)"
    and tron: "map_of (crypto_apis w) ''tron'' = Some (check_tron w)"
    by (simp_all add: crypto_apis_def)
  have "check_address w room_id address ''bitcoin'' sender st
        = (replied w room_id address ''bitcoin'' sender [utxo_request ''btc'' address]
             (''Error checking Bitcoin address: '' @ str_int (status_code r)) st, Inr ())"
    if "http_get w (utxo_request ''btc'' address) = Inr r" and "status_code r \<noteq> 200"
    using utxo_check_not_200 [OF that, of "''Bitcoin''" "''BTC''"]
    by (intro general [OF bitcoin]) (simp add: check_bitcoin_def)
  moreover have "check_address w room_id address ''ethereum'' sender st
        = (replied w room_id address ''ethereum'' sender [balance_request w address]
             (''Error checking Ethereum address: '' @ str_int (status_code r)) st, Inr ())"
    if "etherscan (API_KEYS w) \<noteq> []" and "http_get w (balance_request w address) = Inr r"
      and "status_code r \<noteq> 200"
    by (rule general [OF ethereum check_ethereum_not_200 [OF that]])
  moreover have "check_address w room_id address ''ethereum'' sender st
        = (replied w room_id address ''ethereum'' sender [balance_request w address]
             (''Error checking Ethereum address: '' @ py_str w message) st, Inr ())"
    if "etherscan (API_KEYS w) \<noteq> []" and "http_get w (balance_request w address) = Inr r"
      and "status_code r = 200" and "json_body r = Some data"
      and "py_getitem data ''status'' = Inr status" and "status \<noteq> JStr ''1''"
      and "py_getitem data ''message'' = Inr message"
    by (rule general [OF ethereum check_ethereum_payload_error [OF that]])
  moreover have "check_address w room_id address ''ethereum'' sender st
        = (replied w room_id address ''ethereum'' sender [] ''Etherscan API key is not set'' st, Inr ())"
    if "etherscan (API_KEYS w) = []"
    by (rule general [OF ethereum check_ethereum_no_key [OF that]])
  moreover have "check_address w room_id address ''tron'' sender st
        = (replied w room_id address ''tron'' sender [tron_request w address]
             (''No data found for TRON address: '' @ address) st, Inr ())"
    if "http_get w (tron_request w address) = Inr r" and "status_code r = 200"
      and "json_body r = Some data" and "has_data data = Inr False"
    by (rule general [OF tron check_tron_no_data [OF that]])
  ultimately show ?thesis
    using general by blast
qed

theorem adapter_text_sent_unchanged_witness:
  "check_address (sample_world not_found matrix_env) ''!room'' genesis_address ''bitcoin''
       ''@alice:example.org'' initial_state
     = (initial_state
          \<lparr>sent := [(''!room'', ''messages.checking:ru''),
                    (''!room'', ''Error checking Bitcoin address: 404'')],
           requests := [utxo_request ''btc'' genesis_address]\<rparr>,
        Inr ())
   \<and> check_address (sample_world not_found matrix_env) ''!room'' ''0xabc'' ''ethereum''
       ''@alice:example.org'' initial_state
     = (initial_state
          \<lparr>sent := [(''!room'', ''messages.checking:ru''),
                    (''!room'', ''Etherscan API key is not set'')],
           requests := []\<rparr>,
        Inr ())"
proof -
  let ?w = "sample_world not_found matrix_env"
  have response: "http_get ?w (utxo_request ''btc'' genesis_address)
                  = Inr \<lparr>status_code = 404, json_body = None\<rparr>"
    and status: "status_code \<lparr>status_code = 404, json_body = None\<rparr> \<noteq> 200"
    and no_key: "etherscan (API_KEYS ?w) = []"
    by (simp_all add: sample_world_def not_found_def API_KEYS_def getenv_def matrix_env_def)
  from adapter_text_sent_unchanged [of ?w "''bitcoin''" "check_bitcoin ?w" genesis_address
      "[]" "[]" "''!room''" "''@alice:example.org''" initial_state
      "\<lparr>status_code = 404, json_body = None\<rparr>"]
    response status
  have first: "check_address ?w ''!room'' genesis_address ''bitcoin'' ''@alice:example.org'' initial_state
               = (replied ?w ''!room'' genesis_address ''bitcoin'' ''@alice:example.org''
                    [utxo_request ''btc'' genesis_address]
                    (''Error checking Bitcoin address: '' @ str_int 404) initial_state, Inr ())"
    by simp
  from adapter_text_sent_unchanged [of ?w "''ethereum''" "check_ethereum ?w" "''0xabc''"
      "[]" "[]" "''!room''" "''@alice:example.org''" initial_state] no_key
  have second: "check_address ?w ''!room'' ''0xabc'' ''ethereum'' ''@alice:example.org'' initial_state
               = (replied ?w ''!room'' ''0xabc'' ''ethereum'' ''@alice:example.org'' []
                    ''Etherscan API key is not set'' initial_state, Inr ())"
    by simp
  show ?thesis
    unfolding first second
    by (simp add: replied_def str_int_404 sample_world_def checking_notice_def
        get_user_language_def initial_state_def)
qed

text \<open>
  C4 as stated: once the balance request has succeeded with status \<open>'1'\<close>, a failure of the
  transaction-list request leaves a report with the balance and a count of zero. When the
  transaction-list endpoint answers 502 with a body that is not JSON, \<open>check_ethereum\<close>
  raises instead, and the reply in the chat is the generic error notice: the balance of
  1.5 ETH is not reported.
\<close>

theorem txlist_down_discards_balance:
  "check_ethereum (sample_world txlist_down etherscan_env) eth_address
     = ([balance_request (sample_world txlist_down etherscan_env) eth_address,
         txlist_request (sample_world txlist_down etherscan_env) eth_address],
        Inl JSONDecodeError)
   \<and> sent (fst (check_address (sample_world txlist_down etherscan_env) ''!room'' eth_address
                   ''ethereum'' ''@alice:example.org'' initial_state))
     = [(''!room'', ''messages.checking:ru''), (''!room'', ''messages.error:ru'')]"
proof -
  let ?w = "sample_world txlist_down etherscan_env"
  have first: "http_get ?w (balance_request ?w eth_address)
               = Inr \<lparr>status_code = 200, json_body = Some one_and_a_half_eth\<rparr>"
    using sample_balance_request [of txlist_down]
    by (simp add: sample_world_def txlist_down_def)
  have second: "http_get ?w (txlist_request ?w eth_address)
                = Inr \<lparr>status_code = 502, json_body = None\<rparr>"
    using sample_txlist_request [of txlist_down]
    by (simp add: sample_world_def txlist_down_def)
  have key: "etherscan (API_KEYS ?w) \<noteq> []"
    by (simp add: sample_key)
  have status: "py_getitem one_and_a_half_eth ''status'' = Inr (JStr ''1'')"
    and result: "py_getitem one_and_a_half_eth ''result'' = Inr (JStr ''1500000000000000000'')"
    by (simp_all add: py_getitem_def one_and_a_half_eth_def)
  have raised: "check_ethereum ?w eth_address
                = ([balance_request ?w eth_address, txlist_request ?w eth_address], Inl JSONDecodeError)"
    by (rule check_ethereum_txlist_no_json [OF key first _ _ status result wei_text
          wei_1500000000000000000 second]) simp_all
  have adapter: "map_of (crypto_apis ?w) ''ethereum'' = Some (check_ethereum ?w)"
    by (simp add: crypto_apis_def)
  show ?thesis
    by (simp add: raised check_address_outcome [OF adapter])
      (simp add: sample_world_def checking_notice_def get_user_language_def initial_state_def)
qed

text \<open>
  C4, amended. Once the balance request has succeeded with status \<open>'1'\<close> and a result that
  converts, a transaction-list response whose JSON body carries a status other than \<open>'1'\<close>
  (whatever its HTTP status) leaves the report with the converted balance and the
  transaction count 0.
\<close>

theorem txlist_error_status_keeps_balance:
  assumes "etherscan (API_KEYS w) \<noteq> []"
    and "http_get w (balance_request w address) = Inr response"
    and "status_code response = 200" and "json_body response = Some data"
    and "py_getitem data ''status'' = Inr (JStr ''1'')"
    and "py_getitem data ''result'' = Inr result" and "py_int result = Inr wei"
    and "truediv_float (JInt wei) (10 ^ 18) = Inr balance"
    and "http_get w (txlist_request w address) = Inr tx_response"
    and "json_body tx_response = Some tx_data"
    and "py_getitem tx_data ''status'' = Inr tx_status" and "tx_status \<noteq> JStr ''1''"
  shows "check_ethereum w address =
           ([balance_request w address, txlist_request w address],
            Inr (''Ethereum Address: '' @ address @ NL
                 @ ''Balance: '' @ float_repr w balance @ '' ETH'' @ NL
                 @ ''Transactions: 0''))"
proof -
  from assms(11,12) have "tx_count_of tx_data = Inr 0"
    by (simp add: tx_count_of_def)
  with assms show ?thesis
    by (simp add: check_ethereum_def response_json_def str_int_0 Let_def)
qed

theorem txlist_error_status_keeps_balance_witness:
  "check_ethereum (sample_world txlist_notok etherscan_env) eth_address =
     ([balance_request (sample_world txlist_notok etherscan_env) eth_address,
       txlist_request (sample_world txlist_notok etherscan_env) eth_address],
      Inr (''Ethereum Address: '' @ eth_address @ NL @ ''Balance: 1.5 ETH'' @ NL
           @ ''Transactions: 0''))"
proof -
  let ?w = "sample_world txlist_notok etherscan_env"
  have key: "etherscan (API_KEYS ?w) \<noteq> []"
    by (simp add: sample_key)
  have first: "http_get ?w (balance_request ?w eth_address)
               = Inr \<lparr>status_code = 200, json_body = Some one_and_a_half_eth\<rparr>"
    using sample_balance_request [of txlist_notok]
    by (simp add: sample_world_def txlist_notok_def)
  have second: "http_get ?w (txlist_request ?w eth_address)
                = Inr \<lparr>status_code = 200, json_body = Some rate_limited\<rparr>"
    using sample_txlist_request [of txlist_notok]
    by (simp add: sample_world_def txlist_notok_def)
  have status: "py_getitem one_and_a_half_eth ''status'' = Inr (JStr ''1'')"
    and result: "py_getitem one_and_a_half_eth ''result'' = Inr (JStr ''1500000000000000000'')"
    and tx_status: "py_getitem rate_limited ''status'' = Inr (JStr ''0'')"
    by (simp_all add: py_getitem_def one_and_a_half_eth_def rate_limited_def)
  have "check_ethereum ?w eth_address =
          ([balance_request ?w eth_address, txlist_request ?w eth_address],
           Inr (''Ethereum Address: '' @ eth_address @ NL
                @ ''Balance: '' @ float_repr ?w (3 / 2) @ '' ETH'' @ NL @ ''Transactions: 0''))"
    by (rule txlist_error_status_keeps_balance [OF key first _ _ status result wei_text
          wei_1500000000000000000 second _ tx_status]) simp_all
  then show ?thesis
    by (simp add: sample_world_def)
qed

text \<open>
  C6 as stated: a 200 response with \<open>success\<close> true whose token list omits the USDT
  contract gives a report with balance 0. The empty list omits it, and the adapter returns
  the no-tokens text instead: the guard \<open>data.get('data', [])\<close> is false for an empty list.
\<close>

theorem empty_token_list_is_no_data:
  "check_tron_usdt (sample_world no_tokens matrix_env) tron_address
     = ([tron_usdt_request (sample_world no_tokens matrix_env) tron_address],
        Inr (''No USDT (TRC20) tokens found for address: '' @ tron_address))"
  by (simp add: check_tron_usdt_def sample_world_def no_tokens_def response_json_def
      has_data_def py_get_def truthy_def)

text \<open>
  C6, amended. For a 200 response with \<open>success\<close> true and a token list that is not empty
  and holds JSON objects: when no entry has the USDT contract as its \<open>tokenId\<close>, the
  adapter returns the report with balance 0; otherwise the balance is that of the first
  such entry, wherever it stands in the list.
\<close>

theorem usdt_trc20_scans_token_list:
  assumes "http_get w (tron_usdt_request w address) = Inr response"
    and "status_code response = 200" and "json_body response = Some data"
    and "py_get data ''success'' (JBool False) = Inr success" and "truthy success"
    and "py_get data ''data'' (JArr []) = Inr (JArr tokens)" and "tokens \<noteq> []"
    and "\<forall>token\<in>set tokens. \<exists>items. token = JObj items"
  shows "check_tron_usdt w address =
           ([tron_usdt_request w address],
            case find is_usdt_entry tokens of
              None \<Rightarrow> Inr (''USDT (TRC20) Address: '' @ address @ NL @ ''Balance: 0 USDT'')
            | Some token \<Rightarrow>
                bindE (token_balance token) (\<lambda>usdt_balance.
                  Inr (''USDT (TRC20) Address: '' @ address @ NL
                       @ ''Balance: '' @ py_str w usdt_balance @ '' USDT'')))"
proof -
  from assms(4) obtain items where data: "data = JObj items"
    by (cases data) (simp_all add: py_get_def)
  from assms(6,7) data have listed: "py_getitem data ''data'' = Inr (JArr tokens)"
    by (auto simp: py_get_def py_getitem_def split: option.splits)
  from assms(4,5,6,7) have guard: "has_data data = Inr True"
    by (simp add: has_data_def truthy_def)
  have "check_tron_usdt w address =
          ([tron_usdt_request w address],
           bindE (scan_tokens tokens) (\<lambda>usdt_balance.
             Inr (''USDT (TRC20) Address: '' @ address @ NL
                  @ ''Balance: '' @ py_str w usdt_balance @ '' USDT'')))"
    using assms(1,2,3) listed guard
    by (simp add: check_tron_usdt_def response_json_def py_iter_def Let_def)
  then show ?thesis
    by (simp add: scan_tokens_find [OF assms(8)] py_str_def str_int_0 split: option.split)
qed

theorem usdt_trc20_scans_token_list_witness:
  "check_tron_usdt (sample_world tokens_without_usdt matrix_env) tron_address
     = ([tron_usdt_request (sample_world tokens_without_usdt matrix_env) tron_address],
        Inr (''USDT (TRC20) Address: '' @ tron_address @ NL @ ''Balance: 0 USDT''))
   \<and> check_tron_usdt (sample_world tokens_usdt_second matrix_env) tron_address
     = ([tron_usdt_request (sample_world tokens_usdt_second matrix_env) tron_address],
        Inr (''USDT (TRC20) Address: '' @ tron_address @ NL @ ''Balance: 1.5 USDT''))"
proof -
  let ?w1 = "sample_world tokens_without_usdt matrix_env"
  let ?w2 = "sample_world tokens_usdt_second matrix_env"
  have entries: "\<not> is_usdt_entry other_token" "is_usdt_entry usdt_token"
    by (simp_all add: is_usdt_entry_def other_token_def usdt_token_def py_get_def
        usdt_trc20_contract_def)
  have balance: "token_balance usdt_token = Inr (JFloat (3 / 2))"
    by code_simp
  have first: "check_tron_usdt ?w1 tron_address
               = ([tron_usdt_request ?w1 tron_address],
                  Inr (''USDT (TRC20) Address: '' @ tron_address @ NL @ ''Balance: 0 USDT''))"
    using usdt_trc20_scans_token_list [of ?w1 tron_address
        "\<lparr>status_code = 200,
          json_body = Some (JObj [(''success'', JBool True), (''data'', JArr [other_token])])\<rparr>"
        "JObj [(''success'', JBool True), (''data'', JArr [other_token])]"
        "JBool True" "[other_token]"] entries
    by (simp add: sample_world_def tokens_without_usdt_def py_get_def truthy_def other_token_def)
  have second: "check_tron_usdt ?w2 tron_address
               = ([tron_usdt_request ?w2 tron_address],
                  Inr (''USDT (TRC20) Address: '' @ tron_address @ NL @ ''Balance: 1.5 USDT''))"
    using usdt_trc20_scans_token_list [of ?w2 tron_address
        "\<lparr>status_code = 200,
          json_body = Some (JObj [(''success'', JBool True),
                                  (''data'', JArr [other_token, usdt_token])])\<rparr>"
        "JObj [(''success'', JBool True), (''data'', JArr [other_token, usdt_token])]"
        "JBool True" "[other_token, usdt_token]"] entries balance
    by (simp add: sample_world_def tokens_usdt_second_def py_get_def truthy_def py_str_def)
      (simp add: other_token_def usdt_token_def)
  from first second show ?thesis by simp
qed

end
